theory Spec2Isabelle
  imports Complex_Main
begin

section \<open>Tudat: the aerodynamic acceleration partial\<close>

text \<open>
  A shallow embedding of class \<open>AerodynamicAccelerationPartial\<close>
  (\<^verbatim>\<open>Tudat/Astrodynamics/OrbitDetermination/AccelerationPartials/aerodynamicAccelerationPartial.h\<close>).

  Conventions of the embedding:
  \<^item> a C++ \<open>double\<close> that is a matrix or vector coefficient is a \<open>double\<close>: a finite
    number, an infinity or a not-a-number, with exact operations on the finite numbers;
  \<^item> a \<open>double\<close> that is a time is a \<open>time\<close>, which has the not-a-number value
    the code passes to the reset hooks;
  \<^item> Eigen's fixed-size vectors and matrices are coefficient functions on \<open>nat\<close>
    (only the indices below the static size are read or written), the dynamic
    \<open>Eigen::MatrixXd\<close> is a record of its run-time size and its coefficients;
  \<^item> the objects behind the shared pointers and the two state functions are external
    to the class: they are a record of operations on an environment of any type
    \<open>'e\<close>;
  \<^item> every member function returns a sum: a \<open>throw\<close> is its \<open>Inl\<close>, and a function
    whose code has no \<open>throw\<close> returns \<open>Inr\<close> on every input.
\<close>

subsection \<open>Doubles\<close>

text \<open>
  A \<open>double\<close> is a finite number, an infinity or a not-a-number. The operations follow
  IEEE 754 on the infinities and on not-a-number, and on a division by zero; on finite
  numbers they are exact: rounding, overflow and the sign of a zero are outside the model
  (\<open>Finite 0\<close> is the zero, and a quotient by it has the sign of the dividend). The
  equality of HOL on doubles is the identity of values: not-a-number is one value, equal
  to itself; the \<open>==\<close> of C++ is \<open>double_equal\<close>.
\<close>

datatype double = Finite real | PosInf | NegInf | NaN

fun is_finite :: "double \<Rightarrow> bool" where
  "is_finite (Finite x) = True"
| "is_finite d = False"

fun is_inf :: "double \<Rightarrow> bool" where
  "is_inf PosInf = True"
| "is_inf NegInf = True"
| "is_inf d = False"

fun negative :: "double \<Rightarrow> bool" where
  "negative (Finite x) = (x < 0)"
| "negative NegInf = True"
| "negative d = False"

definition signed_inf :: "bool \<Rightarrow> double" where
  "signed_inf neg = (if neg then NegInf else PosInf)"

instantiation double :: "{zero, uminus, plus, minus, times, inverse}"
begin

definition zero_double :: double where
  "zero_double = Finite 0"

fun uminus_double :: "double \<Rightarrow> double" where
  "uminus_double (Finite x) = Finite (- x)"
| "uminus_double PosInf = NegInf"
| "uminus_double NegInf = PosInf"
| "uminus_double NaN = NaN"

definition plus_double :: "double \<Rightarrow> double \<Rightarrow> double" where
  "plus_double a b =
     (case (a, b) of
        (Finite x, Finite y) \<Rightarrow> Finite (x + y)
      | _ \<Rightarrow> if a = NaN \<or> b = NaN then NaN
             else if is_inf a \<and> is_inf b \<and> a \<noteq> b then NaN
             else if is_inf a then a else b)"

definition minus_double :: "double \<Rightarrow> double \<Rightarrow> double" where
  "minus_double a b = a + (- b)"

definition times_double :: "double \<Rightarrow> double \<Rightarrow> double" where
  "times_double a b =
     (case (a, b) of
        (Finite x, Finite y) \<Rightarrow> Finite (x * y)
      | _ \<Rightarrow> if a = NaN \<or> b = NaN \<or> a = Finite 0 \<or> b = Finite 0 then NaN
             else signed_inf (negative a \<noteq> negative b))"

definition divide_double :: "double \<Rightarrow> double \<Rightarrow> double" where
  "divide_double a b =
     (case (a, b) of
        (Finite x, Finite y) \<Rightarrow>
          if y = 0 then (if x = 0 then NaN else signed_inf (x < 0)) else Finite (x / y)
      | (Finite x, _) \<Rightarrow> if b = NaN then NaN else Finite 0
      | (_, Finite y) \<Rightarrow> if a = NaN then NaN else signed_inf (negative a \<noteq> (y < 0))
      | _ \<Rightarrow> NaN)"

definition inverse_double :: "double \<Rightarrow> double" where
  "inverse_double a = divide (Finite 1) a"

instance ..

end


subsection \<open>Data\<close>

type_synonym Vector3d = "nat \<Rightarrow> double"
type_synonym Vector6d = "nat \<Rightarrow> double"
type_synonym Matrix3x6 = "nat \<Rightarrow> nat \<Rightarrow> double"

record MatrixXd =
  rows :: int
  cols :: int
  coeff :: "int \<Rightarrow> int \<Rightarrow> double"

text \<open>
  Modelled from the spec: the error \<open>InvalidConfiguration\<close>, which the spec gives to a
  zero step size and no code at hand names. The other two errors are the
  \<open>std::runtime_error\<close> the class throws and the failure of an assertion of Eigen.
\<close>

datatype error =
  runtime_error string
  | eigen_assertion
  | InvalidConfiguration

text \<open>
  Modelled from the spec: the macro \<open>TUDAT_NAN\<close> is defined outside the source at hand;
  the spec calls it the not-a-time sentinel, a reserved not-a-number value of the time
  type that is distinct from every valid timestamp.
\<close>

datatype time = TUDAT_NAN | Time real

text \<open>
  Modelled from the spec: the enumerations \<open>propagators::IntegratedStateType\<close> and
  \<open>estimatable_parameters::EstimatebleParametersEnum\<close> are declared outside the source
  at hand. The class names one enumerator of each; every other enumerator is
  \<open>other_\<dots> n\<close>.
\<close>

datatype IntegratedStateType = body_mass_state | other_integrated_state nat

datatype EstimatebleParametersEnum = constant_drag_coefficient | other_estimatable_parameter nat

datatype AerodynamicsReferenceFrames = inertial_frame | aerodynamic_frame

text \<open>\<open>EstimatableParameter< double >\<close>, as far as the class reads it: \<open>getParameterName( )\<close>.\<close>

record EstimatableParameter =
  getParameterName :: "EstimatebleParametersEnum \<times> (string \<times> string)"

text \<open>The members of the class that are values (the member names end in an underscore
  in the source, which an Isabelle name cannot).\<close>

record AerodynamicAccelerationPartial =
  acceleratedBody :: string
  acceleratingBody :: string
  bodyStatePerturbations :: Vector6d
  currentAccelerationStatePartials :: Matrix3x6

text \<open>
  The members of the class that refer to other objects: \<open>flightConditions_\<close>,
  \<open>aerodynamicAcceleration_\<close>, \<open>vehicleStateGetFunction_\<close> and
  \<open>vehicleStateSetFunction_\<close>. Their code is not part of the class; each call the class
  makes is a field, acting on the environment.
\<close>

record 'e collaborators =
  vehicleStateGetFunction :: "'e \<Rightarrow> Vector6d"
  vehicleStateSetFunction :: "Vector6d \<Rightarrow> 'e \<Rightarrow> 'e"
  resetCurrentTime :: "time \<Rightarrow> 'e \<Rightarrow> 'e"
  updateConditions :: "time \<Rightarrow> 'e \<Rightarrow> 'e"
  resetTime :: "time \<Rightarrow> 'e \<Rightarrow> 'e"
  updateMembers :: "time \<Rightarrow> 'e \<Rightarrow> 'e"
  getAcceleration :: "'e \<Rightarrow> Vector3d"
  getRotationQuaternionBetweenFrames ::
    "AerodynamicsReferenceFrames \<Rightarrow> AerodynamicsReferenceFrames \<Rightarrow> 'e \<Rightarrow> Vector3d \<Rightarrow> Vector3d"
  getCurrentAirspeed :: "'e \<Rightarrow> double"
  getCurrentDensity :: "'e \<Rightarrow> double"
  getReferenceArea :: "'e \<Rightarrow> double"

subsection \<open>The constructor\<close>


subsection \<open>Eigen block operations\<close>

text \<open>
  \<open>m.block( startRow, startColumn, 3, 3 )\<close> asserts that the block lies inside \<open>m\<close>
  (\<open>eigen_assert\<close> in \<open>Eigen::Block\<close>'s constructor); the behaviour is undefined when
  assertions are compiled out. The model fails with \<open>eigen_assertion\<close>.
\<close>

definition block_in_range :: "MatrixXd \<Rightarrow> int \<Rightarrow> int \<Rightarrow> bool" where
  "block_in_range m startRow startColumn \<longleftrightarrow>
     0 \<le> startRow \<and> startRow \<le> rows m - 3 \<and> 0 \<le> startColumn \<and> startColumn \<le> cols m - 3"

definition in_block :: "int \<Rightarrow> int \<Rightarrow> int \<Rightarrow> int \<Rightarrow> bool" where
  "in_block startRow startColumn i j \<longleftrightarrow>
     startRow \<le> i \<and> i < startRow + 3 \<and> startColumn \<le> j \<and> j < startColumn + 3"

text \<open>\<open>m.block( startRow, startColumn, 3, 3 ) += p.block( 0, c0, 3, 3 )\<close>\<close>

definition block_add :: "MatrixXd \<Rightarrow> int \<Rightarrow> int \<Rightarrow> Matrix3x6 \<Rightarrow> nat \<Rightarrow> error + MatrixXd" where
  "block_add m startRow startColumn p c0 =
     (if block_in_range m startRow startColumn
      then Inr (m\<lparr>coeff := (\<lambda>i j.
             if in_block startRow startColumn i j
             then coeff m i j + p (nat (i - startRow)) (c0 + nat (j - startColumn))
             else coeff m i j)\<rparr>)
      else Inl eigen_assertion)"

text \<open>\<open>m.block( startRow, startColumn, 3, 3 ) -= p.block( 0, c0, 3, 3 )\<close>\<close>

definition block_sub :: "MatrixXd \<Rightarrow> int \<Rightarrow> int \<Rightarrow> Matrix3x6 \<Rightarrow> nat \<Rightarrow> error + MatrixXd" where
  "block_sub m startRow startColumn p c0 =
     (if block_in_range m startRow startColumn
      then Inr (m\<lparr>coeff := (\<lambda>i j.
             if in_block startRow startColumn i j
             then coeff m i j - p (nat (i - startRow)) (c0 + nat (j - startColumn))
             else coeff m i j)\<rparr>)
      else Inl eigen_assertion)"

text \<open>\<open>Eigen::MatrixXd::Zero( r, c )\<close>\<close>

definition Zero :: "int \<Rightarrow> int \<Rightarrow> MatrixXd" where
  "Zero r c = \<lparr>rows = r, cols = c, coeff = (\<lambda>i j. 0)\<rparr>"

subsection \<open>The accessors of the state partial\<close>

text \<open>
  Each accessor is a member function on the object and the matrix it is given: it
  returns both, or the error.
\<close>

definition wrtPositionOfAcceleratedBody ::
  "AerodynamicAccelerationPartial \<Rightarrow> MatrixXd \<Rightarrow> bool \<Rightarrow> int \<Rightarrow> int
     \<Rightarrow> error + (AerodynamicAccelerationPartial \<times> MatrixXd)" where
  "wrtPositionOfAcceleratedBody this partialMatrix addContribution startRow startColumn =
     (if addContribution
      then map_sum id (Pair this)
             (block_add partialMatrix startRow startColumn (currentAccelerationStatePartials this) 0)
      else map_sum id (Pair this)
             (block_sub partialMatrix startRow startColumn (currentAccelerationStatePartials this) 0))"

definition wrtVelocityOfAcceleratedBody ::
  "AerodynamicAccelerationPartial \<Rightarrow> MatrixXd \<Rightarrow> bool \<Rightarrow> int \<Rightarrow> int
     \<Rightarrow> error + (AerodynamicAccelerationPartial \<times> MatrixXd)" where
  "wrtVelocityOfAcceleratedBody this partialMatrix addContribution startRow startColumn =
     (if addContribution
      then map_sum id (Pair this)
             (block_add partialMatrix startRow startColumn (currentAccelerationStatePartials this) 3)
      else map_sum id (Pair this)
             (block_sub partialMatrix startRow startColumn (currentAccelerationStatePartials this) 3))"

definition wrtPositionOfAcceleratingBody ::
  "AerodynamicAccelerationPartial \<Rightarrow> MatrixXd \<Rightarrow> bool \<Rightarrow> int \<Rightarrow> int
     \<Rightarrow> error + (AerodynamicAccelerationPartial \<times> MatrixXd)" where
  "wrtPositionOfAcceleratingBody this partialMatrix addContribution startRow startColumn =
     (if addContribution
      then map_sum id (Pair this)
             (block_sub partialMatrix startRow startColumn (currentAccelerationStatePartials this) 0)
      else map_sum id (Pair this)
             (block_add partialMatrix startRow startColumn (currentAccelerationStatePartials this) 0))"

definition wrtVelocityOfAcceleratingBody ::
  "AerodynamicAccelerationPartial \<Rightarrow> MatrixXd \<Rightarrow> bool \<Rightarrow> int \<Rightarrow> int
     \<Rightarrow> error + (AerodynamicAccelerationPartial \<times> MatrixXd)" where
  "wrtVelocityOfAcceleratingBody this partialMatrix addContribution startRow startColumn =
     (if addContribution
      then map_sum id (Pair this)
             (block_sub partialMatrix startRow startColumn (currentAccelerationStatePartials this) 3)
      else map_sum id (Pair this)
             (block_add partialMatrix startRow startColumn (currentAccelerationStatePartials this) 3))"


subsection \<open>Dependency on other integrated states\<close>

definition isStateDerivativeDependentOnIntegratedNonTranslationalState ::
  "AerodynamicAccelerationPartial \<Rightarrow> string \<times> string \<Rightarrow> IntegratedStateType \<Rightarrow> error + bool" where
  "isStateDerivativeDependentOnIntegratedNonTranslationalState this stateReferencePoint integratedStateType =
     (if (fst stateReferencePoint = acceleratingBody this \<or>
          fst stateReferencePoint = acceleratedBody this)
         \<and> integratedStateType = body_mass_state
      then Inl (runtime_error
             ''Warning, dependency of central gravity on body masses not yet implemented'')
      else Inr False)"

subsection \<open>Parameter partials\<close>

text \<open>\<open>Eigen::Vector3d::UnitX( )\<close>\<close>

definition UnitX :: Vector3d where
  "UnitX = (\<lambda>i. if i = 0 then Finite 1 else 0)"

text \<open>
  The function writes its result to the matrix it is given by reference: assigning a
  3-vector to a \<open>MatrixXd\<close> makes it 3 by 1. The model returns that matrix.
\<close>

definition computeAccelerationPartialWrtCurrentDragCoefficient ::
  "'e collaborators \<Rightarrow> 'e \<Rightarrow> MatrixXd" where
  "computeAccelerationPartialWrtCurrentDragCoefficient ops env =
     (let rotationToAerodynamicFrame =
            getRotationQuaternionBetweenFrames ops inertial_frame aerodynamic_frame env;
          currentAirspeed = getCurrentAirspeed ops env
      in \<lparr>rows = 3, cols = 1,
          coeff = (\<lambda>i j.
            if 0 \<le> i \<and> i < 3 \<and> j = 0
            then rotationToAerodynamicFrame UnitX (nat i) *
                   (Finite 0.5 * getCurrentDensity ops env * currentAirspeed * currentAirspeed *
                    getReferenceArea ops env)
            else 0)\<rparr>)"

text \<open>
  A \<open>boost::function< void( Eigen::MatrixXd& ) >\<close> is \<open>None\<close> when empty, and \<open>Some f\<close>
  when bound. The overload for a scalar parameter:
\<close>

definition getParameterPartialFunction ::
  "'e collaborators \<Rightarrow> AerodynamicAccelerationPartial \<Rightarrow> EstimatableParameter
     \<Rightarrow> error + (('e \<Rightarrow> MatrixXd) option \<times> int)" where
  "getParameterPartialFunction ops this parameter =
     (let partialFunction = None;
          numberOfColumns = 0;
          (partialFunction, numberOfColumns) =
            (if fst (getParameterName parameter) = constant_drag_coefficient
             then (if fst (snd (getParameterName parameter)) = acceleratedBody this
                   then (Some (computeAccelerationPartialWrtCurrentDragCoefficient ops), 1)
                   else (partialFunction, numberOfColumns))
             else (partialFunction, numberOfColumns))
      in Inr (partialFunction, numberOfColumns))"

text \<open>The overload for a vector parameter.\<close>

definition getParameterPartialFunctionVectorXd ::
  "'e collaborators \<Rightarrow> AerodynamicAccelerationPartial \<Rightarrow> EstimatableParameter
     \<Rightarrow> error + (('e \<Rightarrow> MatrixXd) option \<times> int)" where
  "getParameterPartialFunctionVectorXd ops this parameter = Inr (None, 0)"

subsection \<open>Updating the state partial\<close>

text \<open>\<open>p.block( 0, i, 3, 1 ) = v\<close>\<close>

definition assign_column :: "Matrix3x6 \<Rightarrow> nat \<Rightarrow> Vector3d \<Rightarrow> Matrix3x6" where
  "assign_column p i v = (\<lambda>r c. if r < 3 \<and> c = i then v r else p r c)"

text \<open>The body of the loop of \<open>update\<close>, for the component \<open>i\<close>.\<close>

definition update_iteration ::
  "'e collaborators \<Rightarrow> time \<Rightarrow> Vector6d \<Rightarrow> AerodynamicAccelerationPartial \<times> 'e \<Rightarrow> nat
     \<Rightarrow> AerodynamicAccelerationPartial \<times> 'e" where
  "update_iteration ops currentTime nominalState w i =
     (let this = fst w; env = snd w;
          perturbedState = nominalState;
          perturbedState = perturbedState(i := perturbedState i + bodyStatePerturbations this i);

          env = resetCurrentTime ops TUDAT_NAN env;
          env = resetTime ops TUDAT_NAN env;
          env = vehicleStateSetFunction ops perturbedState env;

          env = updateConditions ops currentTime env;
          env = updateMembers ops currentTime env;
          upperturbedAcceleration = getAcceleration ops env;

          perturbedState = nominalState;
          perturbedState = perturbedState(i := perturbedState i - bodyStatePerturbations this i);

          env = resetCurrentTime ops TUDAT_NAN env;
          env = resetTime ops TUDAT_NAN env;
          env = vehicleStateSetFunction ops perturbedState env;

          env = updateConditions ops currentTime env;
          env = updateMembers ops currentTime env;
          downperturbedAcceleration = getAcceleration ops env
      in (this\<lparr>currentAccelerationStatePartials :=
            assign_column (currentAccelerationStatePartials this) i
              (\<lambda>r. (upperturbedAcceleration r - downperturbedAcceleration r) /
                    (Finite 2.0 * bodyStatePerturbations this i))\<rparr>,
          env))"

text \<open>
  \<open>update\<close>. The loop \<open>for( unsigned int i = 0; i < 6; i++ )\<close> is a fold over
  \<open>[0..<6]\<close>. The default argument of \<open>currentTime\<close> is \<open>TUDAT_NAN\<close>.
\<close>

definition update ::
  "'e collaborators \<Rightarrow> AerodynamicAccelerationPartial \<Rightarrow> time \<Rightarrow> 'e
     \<Rightarrow> error + (AerodynamicAccelerationPartial \<times> 'e)" where
  "update ops this currentTime env =
     (let nominalState = vehicleStateGetFunction ops env;
          w = foldl (update_iteration ops currentTime nominalState) (this, env) [0..<6];
          this = fst w; env = snd w;

          env = resetCurrentTime ops TUDAT_NAN env;
          env = resetTime ops TUDAT_NAN env;
          env = vehicleStateSetFunction ops nominalState env;

          env = updateConditions ops currentTime env;
          env = updateMembers ops currentTime env
      in Inr (this, env))"

subsection \<open>The calls a run makes\<close>

text \<open>
  The calls of the class that act on the environment, as events. \<open>logged ops\<close> are
  the operations \<open>ops\<close> on an environment that also keeps the list of the calls made so
  far: running \<open>update\<close> on them gives the order of its calls.
\<close>

datatype call =
  ResetCurrentTime time
  | ResetTime time
  | VehicleStateSetFunction Vector6d
  | UpdateConditions time
  | UpdateMembers time

definition logged :: "'e collaborators \<Rightarrow> ('e \<times> call list) collaborators" where
  "logged ops =
     \<lparr>vehicleStateGetFunction = (\<lambda>el. vehicleStateGetFunction ops (fst el)),
      vehicleStateSetFunction =
        (\<lambda>s el. (vehicleStateSetFunction ops s (fst el), snd el @ [VehicleStateSetFunction s])),
      resetCurrentTime = (\<lambda>t el. (resetCurrentTime ops t (fst el), snd el @ [ResetCurrentTime t])),
      updateConditions = (\<lambda>t el. (updateConditions ops t (fst el), snd el @ [UpdateConditions t])),
      resetTime = (\<lambda>t el. (resetTime ops t (fst el), snd el @ [ResetTime t])),
      updateMembers = (\<lambda>t el. (updateMembers ops t (fst el), snd el @ [UpdateMembers t])),
      getAcceleration = (\<lambda>el. getAcceleration ops (fst el)),
      getRotationQuaternionBetweenFrames =
        (\<lambda>a b el. getRotationQuaternionBetweenFrames ops a b (fst el)),
      getCurrentAirspeed = (\<lambda>el. getCurrentAirspeed ops (fst el)),
      getCurrentDensity = (\<lambda>el. getCurrentDensity ops (fst el)),
      getReferenceArea = (\<lambda>el. getReferenceArea ops (fst el))\<rparr>"

text \<open>
  One evaluation of the acceleration at the state \<open>s\<close>, as \<open>update\<close> makes it thirteen
  times: both reset hooks with the sentinel, the state set, then both updates.
\<close>

definition evaluate :: "'e collaborators \<Rightarrow> time \<Rightarrow> Vector6d \<Rightarrow> 'e \<Rightarrow> 'e" where
  "evaluate ops currentTime s env =
     updateMembers ops currentTime
       (updateConditions ops currentTime
         (vehicleStateSetFunction ops s
           (resetTime ops TUDAT_NAN (resetCurrentTime ops TUDAT_NAN env))))"

definition evaluation_calls :: "time \<Rightarrow> Vector6d \<Rightarrow> call list" where
  "evaluation_calls currentTime s =
     [ResetCurrentTime TUDAT_NAN, ResetTime TUDAT_NAN, VehicleStateSetFunction s,
      UpdateConditions currentTime, UpdateMembers currentTime]"

text \<open>The states of the twelve perturbed evaluations, in the order of the loop.\<close>

definition upperturbed :: "Vector6d \<Rightarrow> Vector6d \<Rightarrow> nat \<Rightarrow> Vector6d" where
  "upperturbed s h i = s(i := s i + h i)"

definition downperturbed :: "Vector6d \<Rightarrow> Vector6d \<Rightarrow> nat \<Rightarrow> Vector6d" where
  "downperturbed s h i = s(i := s i - h i)"

definition perturbed :: "Vector6d \<Rightarrow> Vector6d \<Rightarrow> nat \<Rightarrow> Vector6d" where
  "perturbed s h k = (if even k then upperturbed s h (k div 2) else downperturbed s h (k div 2))"

text \<open>
  The calls of one \<open>update\<close>, from the nominal state \<open>s\<close> with the steps \<open>h\<close>: the twelve
  perturbed evaluations, then the nominal one.
\<close>

definition update_calls :: "time \<Rightarrow> Vector6d \<Rightarrow> Vector6d \<Rightarrow> call list" where
  "update_calls t s h =
     concat (map (\<lambda>k. evaluation_calls t (perturbed s h k)) [0..<12]) @ evaluation_calls t s"

text \<open>
  The environment the loop of \<open>update\<close> has reached before the iteration \<open>i\<close>: each
  iteration before it has made its two evaluations.
\<close>

fun environment_before ::
  "'e collaborators \<Rightarrow> time \<Rightarrow> Vector6d \<Rightarrow> Vector6d \<Rightarrow> 'e \<Rightarrow> nat \<Rightarrow> 'e" where
  "environment_before ops t s h env 0 = env"
| "environment_before ops t s h env (Suc i) =
     evaluate ops t (downperturbed s h i)
       (evaluate ops t (upperturbed s h i) (environment_before ops t s h env i))"

subsection \<open>Contracts of the collaborators\<close>

text \<open>
  What the theorems on \<open>update\<close> ask of the collaborators, whatever their code.

  \<open>state_is_kept\<close>: after an evaluation at the state \<open>s\<close>, the get function returns
  \<open>s\<close> (the set function overwrites the state, the updates leave it alone).

  \<open>evaluation_overwrites\<close>: an evaluation leaves nothing of an evaluation before it
  (the reset hooks invalidate what the updates cached).
\<close>

definition state_is_kept :: "'e collaborators \<Rightarrow> time \<Rightarrow> bool" where
  "state_is_kept ops currentTime \<longleftrightarrow>
     (\<forall>s env. vehicleStateGetFunction ops (evaluate ops currentTime s env) = s)"

definition evaluation_overwrites :: "'e collaborators \<Rightarrow> time \<Rightarrow> bool" where
  "evaluation_overwrites ops currentTime \<longleftrightarrow>
     (\<forall>s s' env. evaluate ops currentTime s (evaluate ops currentTime s' env) =
                 evaluate ops currentTime s env)"

text \<open>An environment from which every evaluation gives what it gives from \<open>env\<close>.\<close>

definition same_evaluations :: "'e collaborators \<Rightarrow> time \<Rightarrow> 'e \<Rightarrow> 'e \<Rightarrow> bool" where
  "same_evaluations ops t env env' \<longleftrightarrow> (\<forall>s. evaluate ops t s env' = evaluate ops t s env)"

text \<open>
  The central difference of the acceleration in the component \<open>i\<close>, with the acceleration
  read after an evaluation that starts from \<open>env\<close>.
\<close>

definition acceleration_at :: "'e collaborators \<Rightarrow> time \<Rightarrow> 'e \<Rightarrow> Vector6d \<Rightarrow> Vector3d" where
  "acceleration_at ops currentTime env s = getAcceleration ops (evaluate ops currentTime s env)"

definition central_difference ::
  "(Vector6d \<Rightarrow> Vector3d) \<Rightarrow> Vector6d \<Rightarrow> Vector6d \<Rightarrow> nat \<Rightarrow> Vector3d" where
  "central_difference f s h i =
     (\<lambda>r. (f (upperturbed s h i) r - f (downperturbed s h i) r) / (Finite 2 * h i))"

subsection \<open>Collaborators with caches\<close>

text \<open>
  Modelled from the spec: the flight conditions, the acceleration model and the state
  functions are not in the source at hand. The spec gives their contracts:
  \<open>getState\<close> returns the current state and \<open>setState\<close> overwrites it;
  \<open>updateConditions(time)\<close> recomputes the derived quantities for \<open>time\<close>;
  \<open>resetCurrentTime(time)\<close> invalidates the cache, so that the next \<open>updateConditions\<close>
  recomputes; \<open>updateMembers\<close> and \<open>resetTime\<close> mirror them for the acceleration;
  \<open>getAcceleration\<close> returns the cached acceleration; the cache check is an equality of
  times, which the sentinel never passes. The acceleration is the one of the spec's
  scenario: \<open>k * v^2\<close> along a fixed direction, \<open>k\<close> and \<open>v\<close> from the density and
  the airspeed.
\<close>

record flight_env =
  currentState :: Vector6d
  conditionsTime :: time
  currentDensity :: double
  currentAirspeed :: double
  accelerationTime :: time
  currentAcceleration :: Vector3d

text \<open>\<open>==\<close> on two times: a not-a-number equals nothing, itself included.\<close>

definition time_equal :: "time \<Rightarrow> time \<Rightarrow> bool" where
  "time_equal a b \<longleftrightarrow> a \<noteq> TUDAT_NAN \<and> b \<noteq> TUDAT_NAN \<and> a = b"

definition cached_collaborators ::
  "(time \<Rightarrow> Vector6d \<Rightarrow> double) \<Rightarrow> (time \<Rightarrow> Vector6d \<Rightarrow> double) \<Rightarrow> double
     \<Rightarrow> flight_env collaborators" where
  "cached_collaborators density airspeed area =
     \<lparr>vehicleStateGetFunction = currentState,
      vehicleStateSetFunction = (\<lambda>s env. env\<lparr>currentState := s\<rparr>),
      resetCurrentTime = (\<lambda>t env. env\<lparr>conditionsTime := t\<rparr>),
      updateConditions = (\<lambda>t env.
        if time_equal t (conditionsTime env) then env
        else env\<lparr>conditionsTime := t,
                 currentDensity := density t (currentState env),
                 currentAirspeed := airspeed t (currentState env)\<rparr>),
      resetTime = (\<lambda>t env. env\<lparr>accelerationTime := t\<rparr>),
      updateMembers = (\<lambda>t env.
        if time_equal (accelerationTime env) t then env
        else env\<lparr>accelerationTime := t,
                 currentAcceleration := (\<lambda>i. UnitX i *
                   (Finite 0.5 * currentDensity env * currentAirspeed env * currentAirspeed env * area))\<rparr>),
      getAcceleration = currentAcceleration,
      getRotationQuaternionBetweenFrames = (\<lambda>a b env v. v),
      getCurrentAirspeed = currentAirspeed,
      getCurrentDensity = currentDensity,
      getReferenceArea = (\<lambda>env. area)\<rparr>"

text \<open>
  The inputs of the witnesses: a density of 2, the airspeed the fourth component of the
  state, a reference area of 1; a vehicle at rest at the origin but for that component,
  which is 3; steps of 1; caches that hold values for the time 7.
\<close>

definition example_collaborators :: "flight_env collaborators" where
  "example_collaborators = cached_collaborators (\<lambda>t s. Finite 2) (\<lambda>t s. s 3) (Finite 1)"

definition example_state :: Vector6d where
  "example_state = (\<lambda>i. if i = 3 then Finite 3 else 0)"

definition example_env :: flight_env where
  "example_env =
     \<lparr>currentState = example_state, conditionsTime = Time 7, currentDensity = Finite 5,
      currentAirspeed = Finite 11, accelerationTime = Time 7,
      currentAcceleration = (\<lambda>i. Finite 13)\<rparr>"

definition example_partial :: AerodynamicAccelerationPartial where
  "example_partial =
     \<lparr>acceleratedBody = ''Vehicle'', acceleratingBody = ''Earth'',
      bodyStatePerturbations = (\<lambda>i. Finite 1),
      currentAccelerationStatePartials = (\<lambda>r c. if r = c then Finite 1 else 0)\<rparr>"



text \<open>A matrix of ones, 4 by 5.\<close>

definition example_matrix :: MatrixXd where
  "example_matrix = \<lparr>rows = 4, cols = 5, coeff = (\<lambda>i j. Finite 1)\<rparr>"

section \<open>Lemmas\<close>

subsection \<open>Arithmetic of doubles\<close>

lemma Finite_plus [simp]: "Finite x + Finite y = Finite (x + y)"
  by (simp add: plus_double_def)

lemma Finite_minus [simp]: "Finite x - Finite y = Finite (x - y)"
  by (simp add: minus_double_def)

lemma Finite_times [simp]: "Finite x * Finite y = Finite (x * y)"
  by (simp add: times_double_def)

lemma Finite_divide [simp]: "y \<noteq> 0 \<Longrightarrow> Finite x / Finite y = Finite (x / y)"
  by (simp add: divide_double_def)

lemma zero_plus [simp]: "0 + (p::double) = p"
  by (cases p) (simp_all add: plus_double_def zero_double_def)

lemma plus_zero [simp]: "(p::double) + 0 = p"
  by (cases p) (simp_all add: plus_double_def zero_double_def)

lemma zero_minus [simp]: "0 - (p::double) = - p"
  by (simp add: minus_double_def)

lemma minus_zero [simp]: "(p::double) - 0 = p"
  by (cases p) (simp_all add: minus_double_def plus_double_def zero_double_def)

lemma uminus_uminus [simp]: "- (- (p::double)) = p"
  by (cases p) simp_all

lemma uminus_zero [simp]: "- (0::double) = 0"
  by (simp add: zero_double_def)

lemma times_zero_Finite [simp]: "Finite x * 0 = 0" "0 * Finite x = 0"
  by (simp_all add: zero_double_def)

text \<open>Where the arithmetic is not the one of the reals.\<close>

lemma minus_self: "(p::double) - p = (if is_finite p then 0 else NaN)"
  by (cases p) (simp_all add: minus_double_def plus_double_def zero_double_def)

lemma divide_by_zero:
  "(a::double) / 0 = (if a = NaN \<or> a = 0 then NaN else signed_inf (negative a))"
  by (cases a) (simp_all add: divide_double_def zero_double_def)

lemma NaN_arithmetic [simp]:
  "NaN + a = NaN" "a + NaN = NaN" "NaN - a = NaN" "a - NaN = NaN"
  "NaN * a = NaN" "a * NaN = NaN" "NaN / a = NaN" "a / NaN = NaN"
  by (cases a; simp add: plus_double_def minus_double_def times_double_def divide_double_def)+


subsection \<open>The loop of \<open>update\<close>\<close>

lemma update_iteration_evaluate:
  "update_iteration ops t s (this, env) i =
     (this\<lparr>currentAccelerationStatePartials :=
        assign_column (currentAccelerationStatePartials this) i
          (\<lambda>r. (getAcceleration ops (evaluate ops t (upperturbed s (bodyStatePerturbations this) i) env) r -
                getAcceleration ops (evaluate ops t (downperturbed s (bodyStatePerturbations this) i)
                  (evaluate ops t (upperturbed s (bodyStatePerturbations this) i) env)) r) /
               (Finite 2 * bodyStatePerturbations this i))\<rparr>,
      evaluate ops t (downperturbed s (bodyStatePerturbations this) i)
        (evaluate ops t (upperturbed s (bodyStatePerturbations this) i) env))"
  by (simp add: update_iteration_def evaluate_def upperturbed_def downperturbed_def Let_def)

lemma same_evaluations_refl: "same_evaluations ops t env env"
  by (simp add: same_evaluations_def)

lemma same_evaluations_evaluate:
  "evaluation_overwrites ops t \<Longrightarrow> same_evaluations ops t env env'
     \<Longrightarrow> same_evaluations ops t env (evaluate ops t s env')"
  by (simp add: same_evaluations_def evaluation_overwrites_def)

lemma update_iteration_overwrites:
  assumes ov: "evaluation_overwrites ops t" and se: "same_evaluations ops t env env'"
  shows "update_iteration ops t s (this, env') i =
     (this\<lparr>currentAccelerationStatePartials :=
        assign_column (currentAccelerationStatePartials this) i
          (central_difference (acceleration_at ops t env) s (bodyStatePerturbations this) i)\<rparr>,
      evaluate ops t (downperturbed s (bodyStatePerturbations this) i) env)"
proof -
  let ?h = "bodyStatePerturbations this"
  have up: "evaluate ops t (upperturbed s ?h i) env' = evaluate ops t (upperturbed s ?h i) env"
    using se by (simp add: same_evaluations_def)
  have down: "evaluate ops t (downperturbed s ?h i) (evaluate ops t (upperturbed s ?h i) env)
      = evaluate ops t (downperturbed s ?h i) env"
    using ov by (simp add: evaluation_overwrites_def)
  show ?thesis
    by (simp only: update_iteration_evaluate up down central_difference_def acceleration_at_def)
qed

lemma update_loop:
  assumes ov: "evaluation_overwrites ops t"
  shows "same_evaluations ops t env env' \<Longrightarrow>
     foldl (update_iteration ops t s) (this, env') js =
       (this\<lparr>currentAccelerationStatePartials :=
          (\<lambda>r c. if r < 3 \<and> c \<in> set js
                 then central_difference (acceleration_at ops t env) s (bodyStatePerturbations this) c r
                 else currentAccelerationStatePartials this r c)\<rparr>,
        if js = [] then env' else evaluate ops t (downperturbed s (bodyStatePerturbations this) (last js)) env)"
proof (induction js arbitrary: this env')
  case Nil
  show ?case by simp
next
  case (Cons j js)
  let ?this1 = "this\<lparr>currentAccelerationStatePartials :=
        assign_column (currentAccelerationStatePartials this) j
          (central_difference (acceleration_at ops t env) s (bodyStatePerturbations this) j)\<rparr>"
  let ?env1 = "evaluate ops t (downperturbed s (bodyStatePerturbations this) j) env"
  have step: "update_iteration ops t s (this, env') j = (?this1, ?env1)"
    by (rule update_iteration_overwrites [OF ov Cons.prems])
  have se1: "same_evaluations ops t env ?env1"
    by (rule same_evaluations_evaluate [OF ov same_evaluations_refl])
  have "foldl (update_iteration ops t s) (this, env') (j # js)
      = foldl (update_iteration ops t s) (?this1, ?env1) js"
    by (simp add: step)
  also note Cons.IH [OF se1, of ?this1]
  finally have eq: "foldl (update_iteration ops t s) (this, env') (j # js) =
      (?this1\<lparr>currentAccelerationStatePartials :=
          (\<lambda>r c. if r < 3 \<and> c \<in> set js
                 then central_difference (acceleration_at ops t env) s (bodyStatePerturbations ?this1) c r
                 else currentAccelerationStatePartials ?this1 r c)\<rparr>,
        if js = [] then ?env1 else evaluate ops t (downperturbed s (bodyStatePerturbations ?this1) (last js)) env)" .
  have p: "(\<lambda>r c. if r < 3 \<and> c \<in> set js
                 then central_difference (acceleration_at ops t env) s (bodyStatePerturbations ?this1) c r
                 else currentAccelerationStatePartials ?this1 r c)
      = (\<lambda>r c. if r < 3 \<and> c \<in> set (j # js)
                 then central_difference (acceleration_at ops t env) s (bodyStatePerturbations this) c r
                 else currentAccelerationStatePartials this r c)"
    by (auto simp: assign_column_def fun_eq_iff)
  show ?case
    unfolding eq p by simp
qed

lemma set_upt_6: "c \<in> set [0..<6] \<longleftrightarrow> c < 6"
  by simp

lemma update_overwrites:
  assumes ov: "evaluation_overwrites ops t"
  shows "update ops this t env =
     Inr (this\<lparr>currentAccelerationStatePartials :=
            (\<lambda>r c. if r < 3 \<and> c < 6
                   then central_difference (acceleration_at ops t env)
                          (vehicleStateGetFunction ops env) (bodyStatePerturbations this) c r
                   else currentAccelerationStatePartials this r c)\<rparr>,
          evaluate ops t (vehicleStateGetFunction ops env) env)"
proof -
  let ?s = "vehicleStateGetFunction ops env"
  let ?w = "foldl (update_iteration ops t ?s) (this, env) [0..<6]"
  have loop: "?w =
       (this\<lparr>currentAccelerationStatePartials :=
          (\<lambda>r c. if r < 3 \<and> c \<in> set [0..<6]
                 then central_difference (acceleration_at ops t env) ?s (bodyStatePerturbations this) c r
                 else currentAccelerationStatePartials this r c)\<rparr>,
        if [0..<6] = ([]::nat list) then env
        else evaluate ops t (downperturbed ?s (bodyStatePerturbations this) (last [0..<6])) env)"
    by (rule update_loop [OF ov same_evaluations_refl])
  have last: "evaluate ops t ?s (snd ?w) = evaluate ops t ?s env"
    using ov by (simp add: loop evaluation_overwrites_def)
  have "update ops this t env = Inr (fst ?w, evaluate ops t ?s (snd ?w))"
    by (simp add: update_def Let_def evaluate_def)
  also have "\<dots> = Inr (fst ?w, evaluate ops t ?s env)"
    by (simp only: last)
  also have "fst ?w = this\<lparr>currentAccelerationStatePartials :=
            (\<lambda>r c. if r < 3 \<and> c < 6
                   then central_difference (acceleration_at ops t env) ?s (bodyStatePerturbations this) c r
                   else currentAccelerationStatePartials this r c)\<rparr>"
    by (simp only: loop fst_conv set_upt_6)
  finally show ?thesis .
qed

lemma cached_evaluate:
  "evaluate (cached_collaborators density airspeed area) t s env =
     env\<lparr>currentState := s, conditionsTime := t,
         currentDensity := density t s, currentAirspeed := airspeed t s,
         accelerationTime := t,
         currentAcceleration :=
           (\<lambda>i. UnitX i * (Finite 0.5 * density t s * airspeed t s * airspeed t s * area))\<rparr>"
  by (simp add: evaluate_def cached_collaborators_def time_equal_def)

text \<open>
  What the sentinel is for: after the reset hook with \<open>TUDAT_NAN\<close> the update computes
  the conditions again, whatever the time of the cache was; without the reset, an update
  for the time of the cache keeps the cache, also when the state has changed.
\<close>

lemma cached_reset_forces_recomputation:
  "updateConditions (cached_collaborators density airspeed area) t
     (resetCurrentTime (cached_collaborators density airspeed area) TUDAT_NAN env) =
   env\<lparr>conditionsTime := t,
       currentDensity := density t (currentState env),
       currentAirspeed := airspeed t (currentState env)\<rparr>"
  by (simp add: cached_collaborators_def time_equal_def)

lemma cached_update_without_reset:
  "conditionsTime env = Time x \<Longrightarrow>
   updateConditions (cached_collaborators density airspeed area) (Time x)
     (vehicleStateSetFunction (cached_collaborators density airspeed area) s env) =
   env\<lparr>currentState := s\<rparr>"
  by (simp add: cached_collaborators_def time_equal_def)

lemma cached_evaluation_overwrites:
  "evaluation_overwrites (cached_collaborators density airspeed area) t"
  by (simp add: evaluation_overwrites_def cached_evaluate)

lemma cached_state_is_kept:
  "state_is_kept (cached_collaborators density airspeed area) t"
  by (simp add: state_is_kept_def cached_evaluate) (simp add: cached_collaborators_def)

lemma logged_evaluate:
  "evaluate (logged ops) t s (env, l) = (evaluate ops t s env, l @ evaluation_calls t s)"
  by (simp add: evaluate_def logged_def evaluation_calls_def)

lemma logged_getAcceleration: "getAcceleration (logged ops) el = getAcceleration ops (fst el)"
  by (simp add: logged_def)

lemma logged_update_iteration:
  "update_iteration (logged ops) t s (this, (env, l)) i =
     (fst (update_iteration ops t s (this, env) i),
      snd (update_iteration ops t s (this, env) i),
      l @ evaluation_calls t (upperturbed s (bodyStatePerturbations this) i)
        @ evaluation_calls t (downperturbed s (bodyStatePerturbations this) i))"
  by (simp add: update_iteration_evaluate logged_evaluate logged_getAcceleration)

lemma update_iteration_perturbations:
  "bodyStatePerturbations (fst (update_iteration ops t s (this, env) i)) = bodyStatePerturbations this"
  by (simp add: update_iteration_evaluate)

lemma logged_update_loop:
  "foldl (update_iteration (logged ops) t s) (this, (env, l)) js =
     (fst (foldl (update_iteration ops t s) (this, env) js),
      snd (foldl (update_iteration ops t s) (this, env) js),
      l @ concat (map (\<lambda>i. evaluation_calls t (upperturbed s (bodyStatePerturbations this) i)
                         @ evaluation_calls t (downperturbed s (bodyStatePerturbations this) i)) js))"
proof (induction js arbitrary: this env l)
  case Nil
  show ?case by simp
next
  case (Cons j js)
  obtain this1 env1 where step: "update_iteration ops t s (this, env) j = (this1, env1)"
    by (cases "update_iteration ops t s (this, env) j")
  have h: "bodyStatePerturbations this1 = bodyStatePerturbations this"
    using update_iteration_perturbations [of ops t s this env j] by (simp add: step)
  show ?case
    by (simp add: logged_update_iteration step Cons.IH h)
qed

lemma update_unfold:
  "update ops this t env =
     Inr (fst (foldl (update_iteration ops t (vehicleStateGetFunction ops env)) (this, env) [0..<6]),
          evaluate ops t (vehicleStateGetFunction ops env)
            (snd (foldl (update_iteration ops t (vehicleStateGetFunction ops env)) (this, env) [0..<6])))"
  by (simp add: update_def Let_def evaluate_def)

lemma update_loop_perturbations:
  "bodyStatePerturbations (fst (foldl (update_iteration ops t s) (this, env) js)) =
     bodyStatePerturbations this"
proof (induction js arbitrary: this env)
  case Nil
  show ?case by simp
next
  case (Cons j js)
  obtain this1 env1 where step: "update_iteration ops t s (this, env) j = (this1, env1)"
    by (cases "update_iteration ops t s (this, env) j")
  have "bodyStatePerturbations this1 = bodyStatePerturbations this"
    using update_iteration_perturbations [of ops t s this env j] by (simp add: step)
  then show ?case
    by (simp add: step Cons.IH)
qed

text \<open>
  The columns, whatever the collaborators do: column \<open>i\<close> is the difference of the
  accelerations read after the two evaluations of the iteration \<open>i\<close>, over twice the
  step.
\<close>

lemma update_loop_in_sequence:
  "snd (foldl (update_iteration ops t s) (this, env) [0..<n]) =
     environment_before ops t s (bodyStatePerturbations this) env n \<and>
   currentAccelerationStatePartials (fst (foldl (update_iteration ops t s) (this, env) [0..<n])) =
     (\<lambda>r c. if r < 3 \<and> c < n
            then (getAcceleration ops
                    (evaluate ops t (upperturbed s (bodyStatePerturbations this) c)
                       (environment_before ops t s (bodyStatePerturbations this) env c)) r -
                  getAcceleration ops
                    (environment_before ops t s (bodyStatePerturbations this) env (Suc c)) r)
                 / (Finite 2 * bodyStatePerturbations this c)
            else currentAccelerationStatePartials this r c)"
proof (induction n)
  case 0
  show ?case by simp
next
  case (Suc n)
  let ?w = "foldl (update_iteration ops t s) (this, env) [0..<n]"
  have h: "bodyStatePerturbations (fst ?w) = bodyStatePerturbations this"
    by (rule update_loop_perturbations)
  have step: "foldl (update_iteration ops t s) (this, env) [0..<Suc n] =
      update_iteration ops t s (fst ?w, snd ?w) n"
    by simp
  show ?case
    unfolding step update_iteration_evaluate
    by (auto simp: Suc.IH h assign_column_def fun_eq_iff less_Suc_eq)
qed

lemma update_columns_in_sequence:
  "\<exists>this' env'.
     update ops this t env = Inr (this', env') \<and>
     (\<forall>i<6. \<forall>r<3.
        currentAccelerationStatePartials this' r i =
          (getAcceleration ops
             (evaluate ops t (upperturbed (vehicleStateGetFunction ops env) (bodyStatePerturbations this) i)
                (environment_before ops t (vehicleStateGetFunction ops env)
                   (bodyStatePerturbations this) env i)) r -
           getAcceleration ops
             (environment_before ops t (vehicleStateGetFunction ops env)
                (bodyStatePerturbations this) env (Suc i)) r)
          / (Finite 2 * bodyStatePerturbations this i))"
  by (simp add: update_unfold update_loop_in_sequence del: environment_before.simps)

lemma logged_vehicleStateGetFunction:
  "vehicleStateGetFunction (logged ops) el = vehicleStateGetFunction ops (fst el)"
  by (simp add: logged_def)

lemma perturbed_calls:
  "concat (map (\<lambda>i. evaluation_calls t (upperturbed s h i) @ evaluation_calls t (downperturbed s h i)) [0..<6])
     = concat (map (\<lambda>k. evaluation_calls t (perturbed s h k)) [0..<12])"
  by (simp add: perturbed_def upt_rec [of _ "numeral _"] upt_rec [of _ "Suc _"])

lemma logged_update:
  "update (logged ops) this t (env, l) =
     map_sum id (\<lambda>w. (fst w, snd w,
        l @ update_calls t (vehicleStateGetFunction ops env) (bodyStatePerturbations this)))
      (update ops this t env)"
  by (simp add: update_unfold logged_vehicleStateGetFunction logged_update_loop logged_evaluate
        update_calls_def perturbed_calls)

subsection \<open>Block operations\<close>

lemma block_add_in_range:
  "block_in_range m r c \<Longrightarrow>
     block_add m r c p c0 =
       Inr (m\<lparr>coeff := (\<lambda>i j. if in_block r c i j
                              then coeff m i j + p (nat (i - r)) (c0 + nat (j - c))
                              else coeff m i j)\<rparr>)"
  by (simp add: block_add_def)

lemma block_sub_in_range:
  "block_in_range m r c \<Longrightarrow>
     block_sub m r c p c0 =
       Inr (m\<lparr>coeff := (\<lambda>i j. if in_block r c i j
                              then coeff m i j - p (nat (i - r)) (c0 + nat (j - c))
                              else coeff m i j)\<rparr>)"
  by (simp add: block_sub_def)

lemma block_in_range_coeff_update [simp]:
  "block_in_range (m\<lparr>coeff := f\<rparr>) r c = block_in_range m r c"
  by (simp add: block_in_range_def)

lemma in_block_offsets: "i < 3 \<Longrightarrow> j < 3 \<Longrightarrow> in_block r c (r + int i) (c + int j)"
  by (simp add: in_block_def)

lemmas accessor_defs =
  wrtPositionOfAcceleratedBody_def wrtVelocityOfAcceleratedBody_def
  wrtPositionOfAcceleratingBody_def wrtVelocityOfAcceleratingBody_def

subsection \<open>\<open>update\<close> and the steps\<close>


lemma perturbed_by_zero:
  "h i = 0 \<Longrightarrow> upperturbed s h i = s \<and> downperturbed s h i = s"
  by (simp add: upperturbed_def downperturbed_def)

lemma update_zero_step_column:
  assumes "evaluation_overwrites ops currentTime"
    and "i < 6" and "r < 3" and "bodyStatePerturbations this i = 0"
  shows "\<exists>this' env'.
     update ops this currentTime env = Inr (this', env') \<and>
     currentAccelerationStatePartials this' r i = NaN"
proof -
  have "(a - a) / (Finite 2 * 0) = NaN" for a :: double
    by (cases a) (simp_all add: minus_self zero_double_def divide_double_def)
  then show ?thesis
    using assms(2-4)
    by (simp add: update_overwrites [OF assms(1)] central_difference_def perturbed_by_zero)
qed

subsection \<open>The order of the calls\<close>

lemma length_update_calls: "length (update_calls t s h) = 65"
  by (simp add: update_calls_def evaluation_calls_def
        upt_rec [of _ "numeral _"] upt_rec [of _ "Suc _"])

lemma update_calls_window:
  assumes "k < 12"
  shows "take 7 (drop (5 * k) (update_calls t s h)) =
     [ResetCurrentTime TUDAT_NAN, ResetTime TUDAT_NAN, VehicleStateSetFunction (perturbed s h k),
      UpdateConditions t, UpdateMembers t, ResetCurrentTime TUDAT_NAN, ResetTime TUDAT_NAN]"
proof -
  have "k \<in> {0, 1, 2, 3, 4, 5, 6, 7, 8, 9, 10, 11}"
    using assms by simp arith
  then show ?thesis
    by (elim insertE emptyE)
       (simp_all add: update_calls_def evaluation_calls_def
          upt_rec [of _ "numeral _"] upt_rec [of _ "Suc _"],
        simp_all add: eval_nat_numeral)
qed

subsection \<open>A cache of not-a-numbers\<close>



section \<open>The claims\<close>

subsection \<open>The accessors\<close>




text \<open>
  C3. On zero-initialised output matrices and with \<open>addContribution = true\<close>, the
  accessor of the accelerated body and the accessor of the accelerating body give
  matrices that are the negation of each other, for the position and for the velocity:
  the accelerated body gets the cached block as it is (columns 0 to 2 for the position,
  3 to 5 for the velocity), the accelerating body gets its negation.
\<close>

theorem accelerated_and_accelerating_blocks_are_negations:
  assumes "block_in_range (Zero n m) startRow startColumn"
  shows "\<exists>a b a' b'.
     wrtPositionOfAcceleratedBody this (Zero n m) True startRow startColumn = Inr (this, a) \<and>
     wrtPositionOfAcceleratingBody this (Zero n m) True startRow startColumn = Inr (this, b) \<and>
     wrtVelocityOfAcceleratedBody this (Zero n m) True startRow startColumn = Inr (this, a') \<and>
     wrtVelocityOfAcceleratingBody this (Zero n m) True startRow startColumn = Inr (this, b') \<and>
     (\<forall>i j. coeff a i j = - coeff b i j) \<and>
     (\<forall>i j. coeff a' i j = - coeff b' i j) \<and>
     (\<forall>i<3. \<forall>j<3.
        coeff a (startRow + int i) (startColumn + int j) =
          currentAccelerationStatePartials this i j \<and>
        coeff b (startRow + int i) (startColumn + int j) =
          - currentAccelerationStatePartials this i j \<and>
        coeff a' (startRow + int i) (startColumn + int j) =
          currentAccelerationStatePartials this i (3 + j) \<and>
        coeff b' (startRow + int i) (startColumn + int j) =
          - currentAccelerationStatePartials this i (3 + j))"
proof -
  note r = assms
  show ?thesis
    by (simp add: accessor_defs block_add_in_range [OF r] block_sub_in_range [OF r]
          in_block_offsets)
       (simp add: Zero_def)
qed

theorem accelerated_and_accelerating_blocks_are_negations_witness:
  "block_in_range (Zero 3 3) 0 0 \<and>
   (\<exists>a b. wrtPositionOfAcceleratedBody example_partial (Zero 3 3) True 0 0
             = Inr (example_partial, a) \<and>
          wrtPositionOfAcceleratingBody example_partial (Zero 3 3) True 0 0
             = Inr (example_partial, b) \<and>
          coeff a 1 1 = Finite 1 \<and> coeff b 1 1 = Finite (- 1) \<and>
          coeff a 1 2 = 0 \<and> coeff b 1 2 = 0)"
proof -
  have r: "block_in_range (Zero 3 3) 0 0"
    by (simp add: block_in_range_def Zero_def)
  obtain a b where
    a: "wrtPositionOfAcceleratedBody example_partial (Zero 3 3) True 0 0 = Inr (example_partial, a)" and
    b: "wrtPositionOfAcceleratingBody example_partial (Zero 3 3) True 0 0 = Inr (example_partial, b)" and
    blocks: "\<forall>i<3. \<forall>j<3.
        coeff a (0 + int i) (0 + int j) = currentAccelerationStatePartials example_partial i j \<and>
        coeff b (0 + int i) (0 + int j) = - currentAccelerationStatePartials example_partial i j"
    using accelerated_and_accelerating_blocks_are_negations [OF r, of example_partial] by blast
  have "coeff a (0 + int 1) (0 + int 1) = currentAccelerationStatePartials example_partial 1 1 \<and>
        coeff b (0 + int 1) (0 + int 1) = - currentAccelerationStatePartials example_partial 1 1"
    using blocks [rule_format, of 1 1] by simp
  moreover
  have "coeff a (0 + int 1) (0 + int 2) = currentAccelerationStatePartials example_partial 1 2 \<and>
        coeff b (0 + int 1) (0 + int 2) = - currentAccelerationStatePartials example_partial 1 2"
    using blocks [rule_format, of 1 2] by simp
  ultimately
  have "coeff a 1 1 = Finite 1 \<and> coeff b 1 1 = Finite (- 1) \<and>
        coeff a 1 2 = 0 \<and> coeff b 1 2 = 0"
    by (simp add: example_partial_def)
  with r a b show ?thesis by blast
qed

text \<open>
  C10. A call of any of the four accessors returns the object as it was, with its
  cached state partial, and a matrix of the same size in which every coefficient
  outside the 3 by 3 block at \<open>(startRow, startColumn)\<close> is the one of the matrix given.
  It does so whenever the block lies inside the matrix; otherwise Eigen's assertion
  fails and no matrix is returned.
\<close>

theorem accessors_change_only_their_block:
  assumes "accessor \<in> {wrtPositionOfAcceleratedBody, wrtVelocityOfAcceleratedBody,
                       wrtPositionOfAcceleratingBody, wrtVelocityOfAcceleratingBody}"
  shows "case accessor this partialMatrix addContribution startRow startColumn of
           Inl e \<Rightarrow> e = eigen_assertion \<and> \<not> block_in_range partialMatrix startRow startColumn
         | Inr (this', partialMatrix') \<Rightarrow>
             block_in_range partialMatrix startRow startColumn \<and>
             this' = this \<and>
             currentAccelerationStatePartials this' = currentAccelerationStatePartials this \<and>
             rows partialMatrix' = rows partialMatrix \<and>
             cols partialMatrix' = cols partialMatrix \<and>
             (\<forall>i j. \<not> in_block startRow startColumn i j \<longrightarrow>
                    coeff partialMatrix' i j = coeff partialMatrix i j)"
  using assms
  by (auto simp: accessor_defs block_add_def block_sub_def)

theorem accessors_change_only_their_block_witness:
  "wrtVelocityOfAcceleratingBody \<in>
     {wrtPositionOfAcceleratedBody, wrtVelocityOfAcceleratedBody,
      wrtPositionOfAcceleratingBody, wrtVelocityOfAcceleratingBody} \<and>
   \<not> in_block 1 2 0 2 \<and>
   (\<exists>partialMatrix'.
      wrtVelocityOfAcceleratingBody example_partial example_matrix True 1 2
        = Inr (example_partial, partialMatrix') \<and>
      rows partialMatrix' = 4 \<and> cols partialMatrix' = 5 \<and>
      coeff partialMatrix' 0 2 = Finite 1)"
proof -
  have m: "wrtVelocityOfAcceleratingBody \<in>
     {wrtPositionOfAcceleratedBody, wrtVelocityOfAcceleratedBody,
      wrtPositionOfAcceleratingBody, wrtVelocityOfAcceleratingBody}"
    by simp
  have o: "\<not> in_block 1 2 0 2"
    by (simp add: in_block_def)
  have r: "block_in_range example_matrix 1 2"
    by (simp add: block_in_range_def example_matrix_def)
  from r obtain x where x: "wrtVelocityOfAcceleratingBody example_partial example_matrix True 1 2 = Inr x"
    by (simp add: wrtVelocityOfAcceleratingBody_def block_sub_def)
  from accessors_change_only_their_block [OF m, where this = example_partial
      and partialMatrix = example_matrix and addContribution = True and startRow = 1
      and startColumn = 2] x o
  have "fst x = example_partial \<and> rows (snd x) = 4 \<and> cols (snd x) = 5 \<and>
        coeff (snd x) 0 2 = Finite 1"
    by (auto simp: example_matrix_def split: prod.splits)
  with x m o show ?thesis
    by (cases x) auto
qed

subsection \<open>Dependencies and parameter partials\<close>

text \<open>
  C6. \<open>isStateDerivativeDependentOnIntegratedNonTranslationalState\<close> throws (a
  \<open>std::runtime_error\<close>) exactly when the state type asked for is the body-mass state
  and the body of the reference point is the accelerated or the accelerating body; for
  every other query it throws nothing and returns false.
\<close>

theorem mass_state_dependency_throws_iff:
  "(isl (isStateDerivativeDependentOnIntegratedNonTranslationalState this
           stateReferencePoint integratedStateType) \<longleftrightarrow>
      integratedStateType = body_mass_state \<and>
      (fst stateReferencePoint = acceleratedBody this \<or>
       fst stateReferencePoint = acceleratingBody this)) \<and>
   (isl (isStateDerivativeDependentOnIntegratedNonTranslationalState this
           stateReferencePoint integratedStateType) \<longrightarrow>
      isStateDerivativeDependentOnIntegratedNonTranslationalState this
        stateReferencePoint integratedStateType =
      Inl (runtime_error
             ''Warning, dependency of central gravity on body masses not yet implemented'')) \<and>
   (\<not> isl (isStateDerivativeDependentOnIntegratedNonTranslationalState this
             stateReferencePoint integratedStateType) \<longrightarrow>
      isStateDerivativeDependentOnIntegratedNonTranslationalState this
        stateReferencePoint integratedStateType = Inr False)"
  by (auto simp: isStateDerivativeDependentOnIntegratedNonTranslationalState_def)

theorem mass_state_dependency_throws_iff_witness:
  "isl (isStateDerivativeDependentOnIntegratedNonTranslationalState example_partial
          (''Earth'', '''') body_mass_state) \<and>
   isl (isStateDerivativeDependentOnIntegratedNonTranslationalState example_partial
          (''Vehicle'', '''') body_mass_state) \<and>
   isStateDerivativeDependentOnIntegratedNonTranslationalState example_partial
     (''Moon'', '''') body_mass_state = Inr False \<and>
   isStateDerivativeDependentOnIntegratedNonTranslationalState example_partial
     (''Earth'', '''') (other_integrated_state 0) = Inr False"
proof -
  have earth: "isl (isStateDerivativeDependentOnIntegratedNonTranslationalState example_partial
          (''Earth'', '''') body_mass_state)"
    using mass_state_dependency_throws_iff [where this = example_partial
        and stateReferencePoint = "(''Earth'', '''')" and integratedStateType = body_mass_state]
    by (simp add: example_partial_def)
  have vehicle: "isl (isStateDerivativeDependentOnIntegratedNonTranslationalState example_partial
          (''Vehicle'', '''') body_mass_state)"
    using mass_state_dependency_throws_iff [where this = example_partial
        and stateReferencePoint = "(''Vehicle'', '''')" and integratedStateType = body_mass_state]
    by (simp add: example_partial_def)
  have moon: "isStateDerivativeDependentOnIntegratedNonTranslationalState example_partial
     (''Moon'', '''') body_mass_state = Inr False"
    using mass_state_dependency_throws_iff [where this = example_partial
        and stateReferencePoint = "(''Moon'', '''')" and integratedStateType = body_mass_state]
    by (simp add: example_partial_def)
  have other: "isStateDerivativeDependentOnIntegratedNonTranslationalState example_partial
     (''Earth'', '''') (other_integrated_state 0) = Inr False"
    using mass_state_dependency_throws_iff [where this = example_partial
        and stateReferencePoint = "(''Earth'', '''')"
        and integratedStateType = "other_integrated_state 0"]
    by simp
  from earth vehicle moon other show ?thesis
    by (intro conjI)
qed

text \<open>
  C4. For a scalar parameter \<open>getParameterPartialFunction\<close> throws nothing. It returns
  one column and a bound function (the partial with respect to the drag coefficient)
  exactly when the kind of the parameter is the constant drag coefficient and its body
  is the accelerated body; for every other parameter, the accelerating body's drag
  coefficient included, it returns no column and an empty function.
\<close>

theorem getParameterPartialFunction_drag_coefficient_only:
  "\<exists>partialFunction numberOfColumns.
     getParameterPartialFunction ops this parameter = Inr (partialFunction, numberOfColumns) \<and>
     ((numberOfColumns = 1 \<and> partialFunction \<noteq> None) \<longleftrightarrow>
        fst (getParameterName parameter) = constant_drag_coefficient \<and>
        fst (snd (getParameterName parameter)) = acceleratedBody this) \<and>
     (fst (getParameterName parameter) = constant_drag_coefficient \<and>
      fst (snd (getParameterName parameter)) = acceleratedBody this \<longrightarrow>
        partialFunction = Some (computeAccelerationPartialWrtCurrentDragCoefficient ops)) \<and>
     (\<not> (fst (getParameterName parameter) = constant_drag_coefficient \<and>
         fst (snd (getParameterName parameter)) = acceleratedBody this) \<longrightarrow>
        numberOfColumns = 0 \<and> partialFunction = None)"
  by (simp add: getParameterPartialFunction_def)

theorem getParameterPartialFunction_drag_coefficient_only_witness:
  "getParameterPartialFunction example_collaborators example_partial
     \<lparr>getParameterName = (constant_drag_coefficient, ''Vehicle'', '''')\<rparr>
     = Inr (Some (computeAccelerationPartialWrtCurrentDragCoefficient example_collaborators), 1) \<and>
   getParameterPartialFunction example_collaborators example_partial
     \<lparr>getParameterName = (constant_drag_coefficient, ''Earth'', '''')\<rparr> = Inr (None, 0) \<and>
   getParameterPartialFunction example_collaborators example_partial
     \<lparr>getParameterName = (other_estimatable_parameter 0, ''Vehicle'', '''')\<rparr> = Inr (None, 0)"
  using
    getParameterPartialFunction_drag_coefficient_only [of example_collaborators example_partial
      "\<lparr>getParameterName = (constant_drag_coefficient, ''Vehicle'', '''')\<rparr>"]
    getParameterPartialFunction_drag_coefficient_only [of example_collaborators example_partial
      "\<lparr>getParameterName = (constant_drag_coefficient, ''Earth'', '''')\<rparr>"]
    getParameterPartialFunction_drag_coefficient_only [of example_collaborators example_partial
      "\<lparr>getParameterName = (other_estimatable_parameter 0, ''Vehicle'', '''')\<rparr>"]
  by (auto simp: example_partial_def)

subsection \<open>\<open>update\<close>\<close>

text \<open>
  C1. Let \<open>s\<close> be the nominal state, the one the get function returns when \<open>update\<close>
  is called, and \<open>h\<close> the perturbations, none of the six zero. Then \<open>update\<close> returns,
  and for each \<open>i\<close> from 0 to 5 column \<open>i\<close> of the cached 3 by 6 partial is
  \<open>(f (s + e\<^sub>i h\<^sub>i) - f (s - e\<^sub>i h\<^sub>i)) / (2 h\<^sub>i)\<close>, where \<open>f x\<close> is the
  acceleration read after the reset hooks, the state set to \<open>x\<close> and the updates of the
  flight conditions and of the acceleration model for the time of the call. For \<open>f\<close> to
  be a function of the state, an evaluation must leave nothing of the evaluations
  before it: \<open>evaluation_overwrites\<close>. (Without it the columns are those of
  \<open>update_columns_in_sequence\<close>.)
\<close>

theorem update_central_difference:
  assumes "evaluation_overwrites ops currentTime"
    and "\<forall>i<6. bodyStatePerturbations this i \<noteq> 0"
  shows "\<exists>this' env'.
     update ops this currentTime env = Inr (this', env') \<and>
     (\<forall>i<6. \<forall>r<3.
        currentAccelerationStatePartials this' r i =
          (acceleration_at ops currentTime env
             (upperturbed (vehicleStateGetFunction ops env) (bodyStatePerturbations this) i) r -
           acceleration_at ops currentTime env
             (downperturbed (vehicleStateGetFunction ops env) (bodyStatePerturbations this) i) r)
          / (Finite 2 * bodyStatePerturbations this i))"
  by (simp add: update_overwrites [OF assms(1)] central_difference_def)

theorem update_central_difference_witness:
  "evaluation_overwrites example_collaborators (Time 0) \<and>
   (\<forall>i. bodyStatePerturbations example_partial i \<noteq> 0) \<and>
   (\<exists>this' env'.
      update example_collaborators example_partial (Time 0) example_env = Inr (this', env') \<and>
      currentAccelerationStatePartials this' 0 3 = Finite 6 \<and>
      currentAccelerationStatePartials this' 0 2 = 0)"
proof -
  have ov: "evaluation_overwrites example_collaborators (Time 0)"
    unfolding example_collaborators_def by (rule cached_evaluation_overwrites)
  have h: "\<forall>i. bodyStatePerturbations example_partial i \<noteq> 0"
    by (simp add: example_partial_def zero_double_def)
  then have h6: "\<forall>i<6. bodyStatePerturbations example_partial i \<noteq> 0"
    by simp
  have f: "acceleration_at example_collaborators (Time 0) example_env x r =
      UnitX r * (Finite 0.5 * Finite 2 * x 3 * x 3 * Finite 1)" for x r
    by (simp add: acceleration_at_def example_collaborators_def cached_evaluate)
       (simp add: cached_collaborators_def)
  obtain this' env' where
    u: "update example_collaborators example_partial (Time 0) example_env = Inr (this', env')" and
    c: "\<forall>i<6. \<forall>r<3. currentAccelerationStatePartials this' r i =
          (acceleration_at example_collaborators (Time 0) example_env
             (upperturbed (vehicleStateGetFunction example_collaborators example_env)
                (bodyStatePerturbations example_partial) i) r -
           acceleration_at example_collaborators (Time 0) example_env
             (downperturbed (vehicleStateGetFunction example_collaborators example_env)
                (bodyStatePerturbations example_partial) i) r)
          / (Finite 2 * bodyStatePerturbations example_partial i)"
    using update_central_difference [OF ov h6, of example_env] by blast
  have s: "vehicleStateGetFunction example_collaborators example_env = example_state"
    by (simp add: example_collaborators_def cached_collaborators_def example_env_def)
  have "currentAccelerationStatePartials this' 0 3 = Finite 6"
    using c [rule_format, of 3 0]
    by (simp add: f s upperturbed_def downperturbed_def example_state_def example_partial_def
          UnitX_def zero_double_def)
  moreover have "currentAccelerationStatePartials this' 0 2 = 0"
    using c [rule_format, of 2 0]
    by (simp add: f s upperturbed_def downperturbed_def example_state_def example_partial_def
          UnitX_def zero_double_def)
  ultimately show ?thesis
    using ov h u by blast
qed

text \<open>
  C2. When \<open>update\<close> returns, the get function returns the nominal state, the one it
  returned when \<open>update\<close> was called, and the environment is the result of an
  evaluation at the nominal state for the time of the call: the caches hold the
  values of the nominal state. Where an evaluation leaves nothing of the evaluations
  before it, the environment is the one that this evaluation gives from the environment
  \<open>update\<close> was called in: nothing of the twelve perturbed states is left. The state
  accessor is asked to return the state last set, through the updates.
\<close>

theorem update_restores_nominal_state:
  assumes "state_is_kept ops currentTime"
  shows "\<exists>this' env'.
     update ops this currentTime env = Inr (this', env') \<and>
     vehicleStateGetFunction ops env' = vehicleStateGetFunction ops env \<and>
     (\<exists>env''. env' = evaluate ops currentTime (vehicleStateGetFunction ops env) env'') \<and>
     (evaluation_overwrites ops currentTime \<longrightarrow>
        env' = evaluate ops currentTime (vehicleStateGetFunction ops env) env)"
proof -
  let ?s = "vehicleStateGetFunction ops env"
  let ?w = "foldl (update_iteration ops currentTime ?s) (this, env) [0..<6]"
  have u: "update ops this currentTime env = Inr (fst ?w, evaluate ops currentTime ?s (snd ?w))"
    by (rule update_unfold)
  have kept: "vehicleStateGetFunction ops (evaluate ops currentTime ?s (snd ?w)) = ?s"
    using assms by (simp add: state_is_kept_def)
  have ov: "evaluate ops currentTime ?s (snd ?w) = evaluate ops currentTime ?s env"
    if "evaluation_overwrites ops currentTime"
    using update_overwrites [OF that, of this env] by (simp add: u)
  show ?thesis
    using u kept ov by blast
qed

theorem update_restores_nominal_state_witness:
  "state_is_kept example_collaborators (Time 0) \<and>
   evaluation_overwrites example_collaborators (Time 0) \<and>
   (\<exists>this'.
      update example_collaborators example_partial (Time 0) example_env =
        Inr (this',
             \<lparr>currentState = example_state, conditionsTime = Time 0,
              currentDensity = Finite 2, currentAirspeed = Finite 3, accelerationTime = Time 0,
              currentAcceleration = (\<lambda>i. UnitX i * Finite 9)\<rparr>))"
proof -
  have k: "state_is_kept example_collaborators (Time 0)"
    unfolding example_collaborators_def by (rule cached_state_is_kept)
  have ov: "evaluation_overwrites example_collaborators (Time 0)"
    unfolding example_collaborators_def by (rule cached_evaluation_overwrites)
  have s: "vehicleStateGetFunction example_collaborators example_env = example_state"
    by (simp add: example_collaborators_def cached_collaborators_def example_env_def)
  have e: "evaluate example_collaborators (Time 0) example_state example_env =
      \<lparr>currentState = example_state, conditionsTime = Time 0,
       currentDensity = Finite 2, currentAirspeed = Finite 3, accelerationTime = Time 0,
       currentAcceleration = (\<lambda>i. UnitX i * Finite 9)\<rparr>"
    by (simp add: example_collaborators_def cached_evaluate example_env_def example_state_def)
  from update_restores_nominal_state [OF k, of example_partial example_env] ov
  obtain this' env' where
    "update example_collaborators example_partial (Time 0) example_env = Inr (this', env')" and
    "env' = evaluate example_collaborators (Time 0)
              (vehicleStateGetFunction example_collaborators example_env) example_env"
    by blast
  then show ?thesis
    using k ov by (simp add: s e)
qed

text \<open>
  C8. Two calls of \<open>update\<close> for the same time, the second on what the first returned,
  with the same collaborators. The second run computes again: it makes all the
  sixty-five calls of an \<open>update\<close>, for the same nominal state, after those of the first
  run, and each of its columns is the central difference of the accelerations it reads,
  from the environment the first run left. It arrives at the same cached state partial
  (and at the same environment). The collaborators are functions, and keep the
  contracts of C1 and C2.
\<close>

theorem update_twice_same_partial:
  assumes "state_is_kept ops currentTime" and "evaluation_overwrites ops currentTime"
  shows "\<exists>this1 env1 this2 env2.
     update ops this currentTime env = Inr (this1, env1) \<and>
     update ops this1 currentTime env1 = Inr (this2, env2) \<and>
     currentAccelerationStatePartials this2 = currentAccelerationStatePartials this1 \<and>
     env2 = env1 \<and>
     (\<forall>i<6. \<forall>r<3.
        currentAccelerationStatePartials this2 r i =
          (acceleration_at ops currentTime env1
             (upperturbed (vehicleStateGetFunction ops env1) (bodyStatePerturbations this1) i) r -
           acceleration_at ops currentTime env1
             (downperturbed (vehicleStateGetFunction ops env1) (bodyStatePerturbations this1) i) r)
          / (Finite 2 * bodyStatePerturbations this1 i)) \<and>
     update (logged ops) this currentTime (env, []) =
       Inr (this1, env1,
            update_calls currentTime (vehicleStateGetFunction ops env)
              (bodyStatePerturbations this)) \<and>
     update (logged ops) this1 currentTime
         (env1, update_calls currentTime (vehicleStateGetFunction ops env)
                  (bodyStatePerturbations this)) =
       Inr (this2, env2,
            update_calls currentTime (vehicleStateGetFunction ops env)
              (bodyStatePerturbations this) @
            update_calls currentTime (vehicleStateGetFunction ops env)
              (bodyStatePerturbations this)) \<and>
     length (update_calls currentTime (vehicleStateGetFunction ops env)
               (bodyStatePerturbations this)) = 65"
proof -
  let ?s = "vehicleStateGetFunction ops env"
  let ?h = "bodyStatePerturbations this"
  let ?env1 = "evaluate ops currentTime ?s env"
  let ?column = "\<lambda>e c. central_difference (acceleration_at ops currentTime e) ?s ?h c"
  let ?this1 = "this\<lparr>currentAccelerationStatePartials :=
      (\<lambda>r c. if r < 3 \<and> c < 6 then ?column env c r
             else currentAccelerationStatePartials this r c)\<rparr>"
  let ?this2 = "?this1\<lparr>currentAccelerationStatePartials :=
      (\<lambda>r c. if r < 3 \<and> c < 6 then ?column ?env1 c r
             else currentAccelerationStatePartials ?this1 r c)\<rparr>"
  have s1: "vehicleStateGetFunction ops ?env1 = ?s"
    using assms(1) by (simp add: state_is_kept_def)
  have f1: "acceleration_at ops currentTime ?env1 = acceleration_at ops currentTime env"
    using assms(2) by (simp add: acceleration_at_def evaluation_overwrites_def fun_eq_iff)
  have e1: "evaluate ops currentTime ?s ?env1 = ?env1"
    using assms(2) by (simp add: evaluation_overwrites_def)
  have u1: "update ops this currentTime env = Inr (?this1, ?env1)"
    by (rule update_overwrites [OF assms(2)])
  have u2: "update ops ?this1 currentTime ?env1 = Inr (?this2, ?env1)"
    using update_overwrites [OF assms(2), of ?this1 ?env1] by (simp add: s1 e1 cong: if_cong)
  have same: "currentAccelerationStatePartials ?this2 = currentAccelerationStatePartials ?this1"
    by (simp add: f1 fun_eq_iff)
  have columns: "\<forall>i<6. \<forall>r<3.
        currentAccelerationStatePartials ?this2 r i =
          (acceleration_at ops currentTime ?env1
             (upperturbed (vehicleStateGetFunction ops ?env1) (bodyStatePerturbations ?this1) i) r -
           acceleration_at ops currentTime ?env1
             (downperturbed (vehicleStateGetFunction ops ?env1) (bodyStatePerturbations ?this1) i) r)
          / (Finite 2 * bodyStatePerturbations ?this1 i)"
    by (simp add: central_difference_def s1)
  have l1: "update (logged ops) this currentTime (env, []) =
      Inr (?this1, ?env1, update_calls currentTime ?s ?h)"
    by (simp add: logged_update u1)
  have l2: "update (logged ops) ?this1 currentTime (?env1, update_calls currentTime ?s ?h) =
      Inr (?this2, ?env1, update_calls currentTime ?s ?h @ update_calls currentTime ?s ?h)"
    by (simp only: logged_update u2 s1) simp
  show ?thesis
    using u1 u2 same columns l1 l2 length_update_calls [of currentTime ?s ?h] by blast
qed

theorem update_twice_same_partial_witness:
  "state_is_kept example_collaborators (Time 0) \<and>
   evaluation_overwrites example_collaborators (Time 0) \<and>
   (\<exists>this1 env1 calls.
      update example_collaborators example_partial (Time 0) example_env = Inr (this1, env1) \<and>
      update example_collaborators this1 (Time 0) env1 = Inr (this1, env1) \<and>
      currentAccelerationStatePartials this1 0 3 = Finite 6 \<and>
      update (logged example_collaborators) example_partial (Time 0) (example_env, [])
        = Inr (this1, env1, calls) \<and>
      update (logged example_collaborators) this1 (Time 0) (env1, calls)
        = Inr (this1, env1, calls @ calls) \<and>
      length calls = 65)"
proof -
  have k: "state_is_kept example_collaborators (Time 0)"
    unfolding example_collaborators_def by (rule cached_state_is_kept)
  have ov: "evaluation_overwrites example_collaborators (Time 0)"
    unfolding example_collaborators_def by (rule cached_evaluation_overwrites)
  let ?calls = "update_calls (Time 0) (vehicleStateGetFunction example_collaborators example_env)
      (bodyStatePerturbations example_partial)"
  obtain this1 env1 this2 env2 where
    1: "update example_collaborators example_partial (Time 0) example_env = Inr (this1, env1)" and
    2: "update example_collaborators this1 (Time 0) env1 = Inr (this2, env2)" and
    p: "currentAccelerationStatePartials this2 = currentAccelerationStatePartials this1" and
    e: "env2 = env1" and
    l1: "update (logged example_collaborators) example_partial (Time 0) (example_env, [])
          = Inr (this1, env1, ?calls)" and
    l2: "update (logged example_collaborators) this1 (Time 0) (env1, ?calls)
          = Inr (this2, env2, ?calls @ ?calls)" and
    n: "length ?calls = 65"
    using update_twice_same_partial [OF k ov, of example_partial example_env] by blast
  have "this2 = this1\<lparr>currentAccelerationStatePartials := currentAccelerationStatePartials this2\<rparr>"
    using 2 by (auto simp: update_overwrites [OF ov])
  then have t: "this2 = this1"
    by (simp add: p)
  have f: "acceleration_at example_collaborators (Time 0) example_env x r =
      UnitX r * (Finite 0.5 * Finite 2 * x 3 * x 3 * Finite 1)" for x r
    by (simp add: acceleration_at_def example_collaborators_def cached_evaluate)
       (simp add: cached_collaborators_def)
  have s: "vehicleStateGetFunction example_collaborators example_env = example_state"
    by (simp add: example_collaborators_def cached_collaborators_def example_env_def)
  have "currentAccelerationStatePartials this1 0 3 = Finite 6"
    using 1
    by (auto simp: update_overwrites [OF ov] central_difference_def f s upperturbed_def
          downperturbed_def example_state_def example_partial_def UnitX_def zero_double_def)
  with 1 2 e t l1 l2 n k ov show ?thesis by blast
qed

subsection \<open>The order of the calls of \<open>update\<close>\<close>

text \<open>
  C7. In every run of \<open>update\<close> the calls are, in this order, those of the twelve
  perturbed evaluations and of the nominal one, five calls each: the reset hook of the
  flight conditions and the one of the acceleration model, both with the sentinel
  \<open>TUDAT_NAN\<close>, the state set, \<open>updateConditions\<close> and \<open>updateMembers\<close>. So the two
  updates of each of the twelve perturbed evaluations (the calls \<open>5 k + 3\<close> and
  \<open>5 k + 4\<close>) come after both resets with the sentinel and the state set (the calls
  \<open>5 k\<close> to \<open>5 k + 2\<close>), and both resets with the sentinel follow them (the calls
  \<open>5 k + 5\<close> and \<open>5 k + 6\<close>), before any other update. The sentinel equals no
  time, itself included, so a cache check that compares times fails after a reset
  (\<open>cached_reset_forces_recomputation\<close>).
\<close>

theorem update_resets_around_each_evaluation:
  "\<exists>this' env' calls.
     update ops this currentTime env = Inr (this', env') \<and>
     update (logged ops) this currentTime (env, []) = Inr (this', env', calls) \<and>
     calls = update_calls currentTime (vehicleStateGetFunction ops env) (bodyStatePerturbations this) \<and>
     length calls = 65 \<and>
     (\<forall>k<12. take 7 (drop (5 * k) calls) =
        [ResetCurrentTime TUDAT_NAN, ResetTime TUDAT_NAN,
         VehicleStateSetFunction
           (perturbed (vehicleStateGetFunction ops env) (bodyStatePerturbations this) k),
         UpdateConditions currentTime, UpdateMembers currentTime,
         ResetCurrentTime TUDAT_NAN, ResetTime TUDAT_NAN]) \<and>
     (\<forall>t. \<not> time_equal t TUDAT_NAN \<and> \<not> time_equal TUDAT_NAN t)"
proof -
  obtain this' env' where u: "update ops this currentTime env = Inr (this', env')"
    by (simp add: update_unfold)
  have "update (logged ops) this currentTime (env, []) =
      Inr (this', env',
           update_calls currentTime (vehicleStateGetFunction ops env) (bodyStatePerturbations this))"
    by (simp add: logged_update u)
  with u show ?thesis
    by (simp add: length_update_calls update_calls_window time_equal_def)
qed

theorem update_resets_around_each_evaluation_witness:
  "(3::nat) < 12 \<and>
   (\<exists>this' env' calls.
      update (logged example_collaborators) example_partial (Time 0) (example_env, [])
        = Inr (this', env', calls) \<and>
      take 7 (drop 15 calls) =
        [ResetCurrentTime TUDAT_NAN, ResetTime TUDAT_NAN,
         VehicleStateSetFunction (example_state(1 := Finite (- 1))),
         UpdateConditions (Time 0), UpdateMembers (Time 0),
         ResetCurrentTime TUDAT_NAN, ResetTime TUDAT_NAN])"
proof -
  obtain this' env' calls where
    l: "update (logged example_collaborators) example_partial (Time 0) (example_env, [])
          = Inr (this', env', calls)" and
    w: "\<forall>k<12. take 7 (drop (5 * k) calls) =
        [ResetCurrentTime TUDAT_NAN, ResetTime TUDAT_NAN,
         VehicleStateSetFunction
           (perturbed (vehicleStateGetFunction example_collaborators example_env)
              (bodyStatePerturbations example_partial) k),
         UpdateConditions (Time 0), UpdateMembers (Time 0),
         ResetCurrentTime TUDAT_NAN, ResetTime TUDAT_NAN]"
    using update_resets_around_each_evaluation
      [of example_collaborators example_partial "Time 0" example_env]
    by blast
  have s: "vehicleStateGetFunction example_collaborators example_env = example_state"
    by (simp add: example_collaborators_def cached_collaborators_def example_env_def)
  have p: "perturbed example_state (bodyStatePerturbations example_partial) 3 = example_state(1 := Finite (- 1))"
    by (simp add: perturbed_def downperturbed_def example_partial_def example_state_def)
  have "take 7 (drop 15 calls) =
        [ResetCurrentTime TUDAT_NAN, ResetTime TUDAT_NAN,
         VehicleStateSetFunction (example_state(1 := Finite (- 1))),
         UpdateConditions (Time 0), UpdateMembers (Time 0),
         ResetCurrentTime TUDAT_NAN, ResetTime TUDAT_NAN]"
    using w [rule_format, of 3] by (simp add: s p)
  with l show ?thesis by auto
qed

subsection \<open>The steps\<close>



end
